theory Spec2Isabelle
  imports Main "HOL-Library.Word"
begin

section \<open>The CPU device manager of Glow: data model\<close>

text \<open>
  A shallow embedding of \<^verbatim>\<open>lib/Backends/CPU/CPUDeviceManager.h\<close> and of the
  \<^verbatim>\<open>CPUDeviceManager.cpp\<close> that follows it in the same source file. Every member
  function becomes a function from the device state to a log of the calls it makes on its
  collaborators (completion callbacks, the stats exporter, \<^verbatim>\<open>llvm::outs()\<close>, the
  trace scope, the \<^verbatim>\<open>CPUBuffer\<close> of a function) and an outcome. Sizes, counters and
  pointers are 64-bit words, so \<open>+\<close> and \<open>-\<close> wrap as \<^verbatim>\<open>uint64_t\<close> does, and
  \<open>\<le>\<close> is the unsigned comparison. Data members keep their names without the
  trailing underscore (\<open>usedMemoryBytes\<close> is \<^verbatim>\<open>usedMemoryBytes_\<close>).
\<close>

type_synonym u64 = "64 word"

text \<open>A \<^verbatim>\<open>uint8_t *\<close>; the null pointer is \<open>0\<close>.\<close>

type_synonym ptr = "64 word"

type_synonym RunIdentifierTy = "64 word"

text \<open>
  The error codes the source names. A \<^verbatim>\<open>MAKE_ERR\<close> with a message only carries
  the default code, here \<open>UNKNOWN\<close>.
\<close>

datatype ErrorCode =
  UNKNOWN | RUNTIME_ERROR | RUNTIME_OUT_OF_DEVICE_MEMORY | RUNTIME_NET_NOT_FOUND

datatype GlowErr = MAKE_ERR ErrorCode string

text \<open>An \<^verbatim>\<open>llvm::Error\<close>: \<open>None\<close> is \<^verbatim>\<open>llvm::Error::success()\<close>.\<close>

type_synonym Error = "GlowErr option"

text \<open>The error kinds of the specification, as the error values the source builds.\<close>

definition DuplicateFunction :: "string \<Rightarrow> GlowErr" where
  "DuplicateFunction name =
     MAKE_ERR UNKNOWN (''Failed to add network: already have a function called '' @ name)"

definition WrongBackend :: "string \<Rightarrow> GlowErr" where
  "WrongBackend name =
     MAKE_ERR UNKNOWN (''Failed to add network: function '' @ name @ '' is not a CPUFunction'')"

definition OutOfDeviceMemory :: GlowErr where
  "OutOfDeviceMemory =
     MAKE_ERR RUNTIME_OUT_OF_DEVICE_MEMORY ''Failed to add network: not enough memory''"

definition EvictNotFound :: "string \<Rightarrow> GlowErr" where
  "EvictNotFound name =
     MAKE_ERR RUNTIME_NET_NOT_FOUND
       (''Could not find function with name '' @ name @ '' to evict'')"

definition RunNotFound :: "string \<Rightarrow> GlowErr" where
  "RunNotFound name =
     MAKE_ERR RUNTIME_NET_NOT_FOUND (''Function '' @ name @ '' not found'')"

definition RemoteAddressUnavailable :: GlowErr where
  "RemoteAddressUnavailable = MAKE_ERR RUNTIME_ERROR ''Failed to find remote address.''"

text \<open>
  \<open>FunctionNotFound\<close> of the specification is the code \<open>RUNTIME_NET_NOT_FOUND\<close>,
  which evict and run raise with different messages.
\<close>

fun errorCode :: "GlowErr \<Rightarrow> ErrorCode" where
  "errorCode (MAKE_ERR c msg) = c"

subsection \<open>Compiled functions and the execution context\<close>

datatype RuntimeSymbolInfo = RuntimeSymbolInfo (offset: u64)

text \<open>
  The runtime bundle of a compiled function, with the accessors the device manager
  calls. \<open>getConstants\<close> is a pointer, null until the constants are collected.
\<close>

record RuntimeBundle =
  getConstants :: ptr
  getActivationsSize :: u64
  getMutableWeightSize :: u64
  getSymbolTable :: "string \<rightharpoonup> RuntimeSymbolInfo"

text \<open>
  The execution context moved into and out of a run: the device bindings the device
  manager attaches (the activations and the weights pointer), and the rest of the
  context, which the device manager never reads.
\<close>

type_synonym CPUDeviceBindings = "ptr \<times> ptr"

record 'x ExecutionContext =
  deviceBindings :: "CPUDeviceBindings option"
  payload :: 'x

text \<open>
  A compiled function. \<open>execute\<close> gets the context through a raw pointer, so it returns
  the context it leaves behind together with its error.
\<close>

record 'x CompiledFunction =
  getCompileBackendName :: string
  getRuntimeBundle :: RuntimeBundle
  execute :: "'x ExecutionContext \<Rightarrow> Error \<times> 'x ExecutionContext"

text \<open>\<^verbatim>\<open>FunctionMapTy\<close>, iterated in the order of the list.\<close>

type_synonym 'x FunctionMapTy = "(string \<times> 'x CompiledFunction) list"

datatype Placeholder = Placeholder (getName: string)

text \<open>A module, of which the device manager only passes the pointer on.\<close>

datatype Module = Module string

text \<open>\<^verbatim>\<open>getPlaceholderByName\<close>: \<open>None\<close> is the null pointer.\<close>

type_synonym PlaceholderBindings = "string \<rightharpoonup> Placeholder"

subsection \<open>The buffer of a function\<close>

type_synonym SingleRequestBuffer = "ptr \<times> ptr"

definition kMaxRequestsSupported :: nat where
  "kMaxRequestsSupported = 1"

text \<open>
  \<open>reqBuffers\<close> (the free slots) and \<open>busyRequestBuffers\<close> are the members the
  header declares; \<open>activationsBuffer\<close> and \<open>weightsBuffer\<close> are the members the
  destructor frees and the getters of the \<^verbatim>\<open>.cpp\<close> return.
\<close>

record CPUBuffer =
  reqBuffers :: "SingleRequestBuffer list"
  busyRequestBuffers :: "RunIdentifierTy \<rightharpoonup> SingleRequestBuffer"
  activationsBuffer :: ptr
  weightsBuffer :: ptr
  activationsSize :: u64
  weightsSize :: u64

text \<open>
  Modelled from the spec: the body of the \<^verbatim>\<open>CPUBuffer\<close> constructor that
  \<^verbatim>\<open>addNetworkImpl\<close> calls (two allocated regions and their sizes) is not in the
  source. The specification's buffer pool starts with its \<open>N\<close> slots free and none busy,
  \<open>N\<close> being \<open>kMaxRequestsSupported\<close>.
\<close>

definition newCPUBuffer :: "ptr \<Rightarrow> u64 \<Rightarrow> ptr \<Rightarrow> u64 \<Rightarrow> CPUBuffer" where
  "newCPUBuffer activationsPtr activationsSz weightsPtr weightsSz =
     \<lparr> reqBuffers = replicate kMaxRequestsSupported (activationsPtr, weightsPtr),
       busyRequestBuffers = Map.empty,
       activationsBuffer = activationsPtr,
       weightsBuffer = weightsPtr,
       activationsSize = activationsSz,
       weightsSize = weightsSz \<rparr>"

text \<open>The member functions of a \<^verbatim>\<open>CPUBuffer\<close> that a caller can invoke.\<close>

datatype CPUBufferCall =
  GetActivationsBuffer
  | GetWeightsBuffer
  | GetUnownedRequestBuffer RunIdentifierTy
  | FreeRequestBuffer RunIdentifierTy

subsection \<open>The device manager\<close>

text \<open>
  \<open>maxMemoryBytes\<close>, \<open>usedMemoryBytes\<close> and \<open>functionCost\<close> are members of the
  base class, which is not in the source; \<open>functionCost\<close> is never assigned here and
  is left arbitrary. \<open>heap\<close> is the state of the aligned allocator.
\<close>

record ('h, 'x) CPUDeviceManager =
  "functions" :: "string \<rightharpoonup> 'x CompiledFunction"
  buffers :: "string \<rightharpoonup> CPUBuffer"
  maxMemoryBytes :: u64
  usedMemoryBytes :: u64
  functionCost :: u64
  heap :: 'h

text \<open>
  What the device manager calls and the source does not define: the aligned allocator
  (\<^verbatim>\<open>alignedAlloc(size, TensorAlignment)\<close> returns the region or the null pointer),
  \<^verbatim>\<open>alignedFree\<close>, \<^verbatim>\<open>collectConstants\<close> of a runtime bundle, and whether
  \<^verbatim>\<open>assert\<close> is compiled out.
\<close>

record 'h Env =
  alignedAlloc :: "'h \<Rightarrow> u64 \<Rightarrow> ptr \<times> 'h"
  alignedFree :: "'h \<Rightarrow> ptr \<Rightarrow> 'h"
  collectConstants :: "Module \<Rightarrow> 'h \<Rightarrow> RuntimeBundle \<Rightarrow> RuntimeBundle \<times> 'h"
  NDEBUG :: bool

text \<open>
  The calls a member function makes on its collaborators, in order. The trace scope of a
  run records into the trace context, which is telemetry and is logged here rather than
  kept inside the \<open>ExecutionContext\<close> value.
\<close>

datatype 'x Event =
  ReadyCB Module Error
  | EvictCB string Error
  | ResultCB RunIdentifierTy Error "'x ExecutionContext"
  | IncrementCounter string int
  | ExportMemoryCounters
  | Outs string
  | TraceScopeEnd string "(string \<times> string) list"
  | BufferCall string CPUBufferCall

text \<open>
  How a call ends: it returns, it stops at a failed \<^verbatim>\<open>assert\<close>, or it dereferences
  a null pointer or an end iterator.
\<close>

datatype 'a Outcome = Returned 'a | AssertionFailed | UndefinedBehaviour

fun isReadyCB :: "'x Event \<Rightarrow> bool" where
  "isReadyCB (ReadyCB m e) = True"
| "isReadyCB _ = False"

fun isResultCB :: "'x Event \<Rightarrow> bool" where
  "isResultCB (ResultCB i e c) = True"
| "isResultCB _ = False"


text \<open>\<^verbatim>\<open>std::map::emplace\<close> keeps the entry of a key that is already there.\<close>

definition emplace :: "('k \<rightharpoonup> 'v) \<Rightarrow> 'k \<Rightarrow> 'v \<Rightarrow> ('k \<rightharpoonup> 'v)" where
  "emplace m k v = (case m k of None \<Rightarrow> m(k \<mapsto> v) | Some old \<Rightarrow> m)"

text \<open>The destructor of a \<^verbatim>\<open>CPUBuffer\<close> frees both regions.\<close>

definition destroyCPUBuffer :: "'h Env \<Rightarrow> 'h \<Rightarrow> CPUBuffer \<Rightarrow> 'h" where
  "destroyCPUBuffer env h b =
     alignedFree env (alignedFree env h (activationsBuffer b)) (weightsBuffer b)"

subsection \<open>Construction and the memory accessors\<close>

record DeviceConfig =
  deviceMemory :: u64

definition kDevicesUsedCPU :: string where
  "kDevicesUsedCPU = ''glow.devices_used.cpu''"

text \<open>
  Modelled from the spec: the base-class constructor that the constructor of
  \<^verbatim>\<open>CPUDeviceManager\<close> calls is not in the source. By the specification the device
  configuration supplies \<open>maximumBytes\<close> at construction; the ledger starts empty.
  The flat function cost and the allocator state are parameters. The two calls on the
  stats exporter are those of the constructor in the header.
\<close>

definition newCPUDeviceManager ::
  "u64 \<Rightarrow> 'h \<Rightarrow> DeviceConfig \<Rightarrow> 'x Event list \<times> ('h, 'x) CPUDeviceManager" where
  "newCPUDeviceManager cost h config =
     ([IncrementCounter kDevicesUsedCPU 1, ExportMemoryCounters],
      \<lparr> functions = Map.empty, buffers = Map.empty,
        maxMemoryBytes = deviceMemory config, usedMemoryBytes = 0,
        functionCost = cost, heap = h \<rparr>)"

text \<open>
  \<open>GlowCPUMemory\<close> is the \<^verbatim>\<open>unsigned\<close> behind the \<^verbatim>\<open>cpu-memory\<close> option,
  in kilobytes; \<^verbatim>\<open>uint64_t{GlowCPUMemory}\<close> widens it before the multiplication.
\<close>

definition createCPUDeviceManager ::
  "32 word \<Rightarrow> u64 \<Rightarrow> 'h \<Rightarrow> DeviceConfig \<Rightarrow> 'x Event list \<times> ('h, 'x) CPUDeviceManager" where
  "createCPUDeviceManager GlowCPUMemory cost h config =
     (if GlowCPUMemory \<noteq> 0
      then let configNew = config\<lparr>deviceMemory := ucast GlowCPUMemory * 1024\<rparr>
           in newCPUDeviceManager cost h configNew
      else newCPUDeviceManager cost h config)"

definition getMaximumMemory :: "('h, 'x) CPUDeviceManager \<Rightarrow> u64" where
  "getMaximumMemory s = maxMemoryBytes s"

definition getAvailableMemory :: "('h, 'x) CPUDeviceManager \<Rightarrow> u64" where
  "getAvailableMemory s = maxMemoryBytes s - usedMemoryBytes s"

definition isMemoryAvailable :: "('h, 'x) CPUDeviceManager \<Rightarrow> u64 \<Rightarrow> bool" where
  "isMemoryAvailable s estimate \<longleftrightarrow> maxMemoryBytes s \<ge> usedMemoryBytes s + estimate"

subsection \<open>Loading\<close>

text \<open>
  The first loop of \<^verbatim>\<open>addNetworkImpl\<close>: the error of the first function, in
  iteration order, that is already registered or is not compiled for the CPU.
\<close>

fun checkFunctions ::
  "(string \<rightharpoonup> 'x CompiledFunction) \<Rightarrow> 'x FunctionMapTy \<Rightarrow> GlowErr option" where
  "checkFunctions registered [] = None"
| "checkFunctions registered (func # rest) =
     (if registered (fst func) \<noteq> None
      then Some (MAKE_ERR UNKNOWN
             (''Failed to add network: already have a function called '' @ fst func))
      else if getCompileBackendName (snd func) \<noteq> ''CPU''
      then Some (MAKE_ERR UNKNOWN
             (''Failed to add network: function '' @ fst func @ '' is not a CPUFunction''))
      else checkFunctions registered rest)"

text \<open>
  One iteration of the second loop. The callback of a failed allocation is followed by
  no \<^verbatim>\<open>return\<close>: the buffer is built from the pointers as they are and registered.
  When \<open>buffers\<close> already has the name, \<^verbatim>\<open>emplace\<close> keeps the old buffer and the new
  one is destroyed.
\<close>

definition addFunction ::
  "'h Env \<Rightarrow> Module \<Rightarrow> string \<times> 'x CompiledFunction \<Rightarrow> ('h, 'x) CPUDeviceManager \<Rightarrow>
     'x Event list \<times> ('h, 'x) CPUDeviceManager" where
  "addFunction env module func s =
     (let (bundle, h0) =
            (if getConstants (getRuntimeBundle (snd func)) = 0
             then collectConstants env module (heap s) (getRuntimeBundle (snd func))
             else (getRuntimeBundle (snd func), heap s));
          (activationsPtr, h1) = alignedAlloc env h0 (getActivationsSize bundle);
          (weightsPtr, h2) = alignedAlloc env h1 (getMutableWeightSize bundle);
          deviceBuffer = newCPUBuffer activationsPtr (getActivationsSize bundle)
                           weightsPtr (getMutableWeightSize bundle)
      in ((if activationsPtr = 0 \<or> weightsPtr = 0
           then [ReadyCB module
                   (Some (MAKE_ERR RUNTIME_OUT_OF_DEVICE_MEMORY
                            ''Failed to add network: not enough memory''))]
           else []),
          s\<lparr> functions :=
               emplace (functions s) (fst func) ((snd func)\<lparr>getRuntimeBundle := bundle\<rparr>),
             usedMemoryBytes := usedMemoryBytes s + functionCost s,
             buffers := emplace (buffers s) (fst func) deviceBuffer,
             heap := (case buffers s (fst func) of
                        None \<Rightarrow> h2
                      | Some old \<Rightarrow> destroyCPUBuffer env h2 deviceBuffer) \<rparr>))"

fun addFunctions ::
  "'h Env \<Rightarrow> Module \<Rightarrow> 'x FunctionMapTy \<Rightarrow> ('h, 'x) CPUDeviceManager \<Rightarrow>
     'x Event list \<times> ('h, 'x) CPUDeviceManager" where
  "addFunctions env module [] s = ([], s)"
| "addFunctions env module (func # rest) s =
     (let (evs, s') = addFunction env module func s;
          (evs', s'') = addFunctions env module rest s'
      in (evs @ evs', s''))"

definition addNetworkImpl ::
  "'h Env \<Rightarrow> ('h, 'x) CPUDeviceManager \<Rightarrow> Module \<Rightarrow> 'x FunctionMapTy \<Rightarrow>
     'x Event list \<times> ('h, 'x) CPUDeviceManager Outcome" where
  "addNetworkImpl env s module newFunctions =
     (case checkFunctions (functions s) newFunctions of
        Some err \<Rightarrow> ([ReadyCB module (Some err)], Returned s)
      | None \<Rightarrow>
          if usedMemoryBytes s + functionCost s > maxMemoryBytes s
          then ([ReadyCB module
                   (Some (MAKE_ERR RUNTIME_OUT_OF_DEVICE_MEMORY
                            ''Failed to add network: not enough memory''))],
                Returned s)
          else (let (evs, s') = addFunctions env module newFunctions s
                in if \<not> NDEBUG env \<and> \<not> usedMemoryBytes s' \<le> maxMemoryBytes s'
                   then (evs, AssertionFailed)
                   else (evs @ [ExportMemoryCounters, ReadyCB module None], Returned s')))"

subsection \<open>Evicting\<close>

definition evictNetworkImpl ::
  "'h Env \<Rightarrow> ('h, 'x) CPUDeviceManager \<Rightarrow> string \<Rightarrow>
     'x Event list \<times> ('h, 'x) CPUDeviceManager Outcome" where
  "evictNetworkImpl env s functionName =
     (if functions s functionName \<noteq> None
      then ([ExportMemoryCounters, EvictCB functionName None],
            Returned
              (s\<lparr> functions := (functions s)(functionName := None),
                  usedMemoryBytes := usedMemoryBytes s - functionCost s,
                  buffers := (buffers s)(functionName := None),
                  heap := (case buffers s functionName of
                             None \<Rightarrow> heap s
                           | Some b \<Rightarrow> destroyCPUBuffer env (heap s) b) \<rparr>))
      else ([EvictCB functionName
               (Some (MAKE_ERR RUNTIME_NET_NOT_FOUND
                        (''Could not find function with name '' @ functionName
                           @ '' to evict'')))],
            Returned s))"

subsection \<open>Running\<close>

text \<open>
  \<^verbatim>\<open>buffers_[function]\<close> of a name \<open>buffers\<close> does not have is a null
  \<^verbatim>\<open>unique_ptr\<close>, dereferenced at once. \<open>execute\<close> is a total function here: a run
  whose execution never returns is outside the model.
\<close>

definition runFunctionImpl ::
  "('h, 'x) CPUDeviceManager \<Rightarrow> RunIdentifierTy \<Rightarrow> string \<Rightarrow> 'x ExecutionContext \<Rightarrow>
     'x Event list \<times> ('h, 'x) CPUDeviceManager Outcome" where
  "runFunctionImpl s ident function context =
     (case functions s function of
        None \<Rightarrow>
          ([TraceScopeEnd ''DeviceManager::run'' [(''reason'', ''function not found'')],
            ResultCB ident
              (Some (MAKE_ERR RUNTIME_NET_NOT_FOUND (''Function '' @ function @ '' not found'')))
              context],
           Returned s)
      | Some func \<Rightarrow>
          (case buffers s function of
             None \<Rightarrow> ([], UndefinedBehaviour)
           | Some buf \<Rightarrow>
               (let cpuBindings = (activationsBuffer buf, weightsBuffer buf);
                    (executeErr, context') =
                       execute func (context\<lparr>deviceBindings := Some cpuBindings\<rparr>)
                in ([BufferCall function GetActivationsBuffer,
                     BufferCall function GetWeightsBuffer,
                     TraceScopeEnd ''DeviceManager::run'' [],
                     ResultCB ident executeErr context'],
                    Returned s))))"

subsection \<open>The peer-to-peer address\<close>

text \<open>
  After printing that the symbol is missing the source reads \<^verbatim>\<open>it->second\<close> of the
  end iterator; a placeholder that is not bound is a null pointer whose name is read.
\<close>

definition getRemotePeerToPeerAddress ::
  "('h, 'x) CPUDeviceManager \<Rightarrow> 64 word \<Rightarrow> PlaceholderBindings \<Rightarrow>
     'x Event list \<times> (GlowErr + 64 word) Outcome" where
  "getRemotePeerToPeerAddress s channelId bindings =
     (let function = ''recv_func'' in
      case functions s function of
        Some func \<Rightarrow>
          (case buffers s function of
             None \<Rightarrow> ([], UndefinedBehaviour)
           | Some buf \<Rightarrow>
               (let baseAddress = weightsBuffer buf;
                    symbolTab = getSymbolTable (getRuntimeBundle func)
                in case bindings ''recv_input'' of
                     None \<Rightarrow> ([BufferCall function GetWeightsBuffer], UndefinedBehaviour)
                   | Some PH \<Rightarrow>
                       (case symbolTab (getName PH) of
                          None \<Rightarrow>
                            ([BufferCall function GetWeightsBuffer,
                              Outs (''Did not find symbol'' @ [CHR 0x0A])],
                             UndefinedBehaviour)
                        | Some symbolInfo \<Rightarrow>
                            ([BufferCall function GetWeightsBuffer],
                             Returned (Inr (baseAddress + offset symbolInfo))))))
      | None \<Rightarrow>
          ([], Returned (Inl (MAKE_ERR RUNTIME_ERROR ''Failed to find remote address.''))))"

section \<open>A concrete device\<close>

text \<open>
  The inputs the closed theorems below are evaluated at: an allocator that hands out
  consecutive regions, an allocator that has nothing left, functions compiled for the
  CPU and for another backend, and the device of the specification's scenario
  (maximum 1000 bytes, flat function cost 400).
\<close>

definition bumpEnv :: "bool \<Rightarrow> ptr Env" where
  "bumpEnv ndebug =
     \<lparr> alignedAlloc = (\<lambda>h sz. (h, h + sz + 64)),
       alignedFree = (\<lambda>h p. h),
       collectConstants = (\<lambda>m h bundle. (bundle\<lparr>getConstants := h\<rparr>, h + 64)),
       NDEBUG = ndebug \<rparr>"

definition exhaustedEnv :: "bool \<Rightarrow> ptr Env" where
  "exhaustedEnv ndebug =
     \<lparr> alignedAlloc = (\<lambda>h sz. (0, h)),
       alignedFree = (\<lambda>h p. h),
       collectConstants = (\<lambda>m h bundle. (bundle\<lparr>getConstants := h\<rparr>, h + 64)),
       NDEBUG = ndebug \<rparr>"

definition cpuBundle :: RuntimeBundle where
  "cpuBundle =
     \<lparr> getConstants = 0, getActivationsSize = 128, getMutableWeightSize = 64,
       getSymbolTable = Map.empty \<rparr>"

definition cpuFunction :: "nat CompiledFunction" where
  "cpuFunction =
     \<lparr> getCompileBackendName = ''CPU'', getRuntimeBundle = cpuBundle,
       execute = (\<lambda>c. (None, c\<lparr>payload := Suc (payload c)\<rparr>)) \<rparr>"


definition interpreterFunction :: "nat CompiledFunction" where
  "interpreterFunction =
     \<lparr> getCompileBackendName = ''Interpreter'', getRuntimeBundle = cpuBundle,
       execute = (\<lambda>c. (None, c)) \<rparr>"

definition exampleDevice :: "(ptr, nat) CPUDeviceManager" where
  "exampleDevice =
     \<lparr> functions = Map.empty, buffers = Map.empty,
       maxMemoryBytes = 1000, usedMemoryBytes = 0, functionCost = 400, heap = 4096 \<rparr>"

definition exampleModule :: Module where
  "exampleModule = Module ''net''"

text \<open>The example device with one function loaded under the given name.\<close>

definition deviceWith :: "string \<Rightarrow> nat CompiledFunction \<Rightarrow> (ptr, nat) CPUDeviceManager" where
  "deviceWith name f = snd (addFunction (bumpEnv True) exampleModule (name, f) exampleDevice)"

definition exampleContext :: "nat ExecutionContext" where
  "exampleContext = \<lparr> deviceBindings = None, payload = 0 \<rparr>"

definition exampleBatch :: "nat FunctionMapTy" where
  "exampleBatch = [(''A'', cpuFunction), (''B'', cpuFunction), (''C'', cpuFunction)]"

definition exampleBindings :: PlaceholderBindings where
  "exampleBindings = [''recv_input'' \<mapsto> Placeholder ''recv_input'']"

definition recvFunction :: "nat CompiledFunction" where
  "recvFunction =
     \<lparr> getCompileBackendName = ''CPU'',
       getRuntimeBundle = cpuBundle\<lparr>getSymbolTable := [''recv_input'' \<mapsto> RuntimeSymbolInfo 16]\<rparr>,
       execute = (\<lambda>c. (None, c)) \<rparr>"

section \<open>What one iteration and the whole second loop change\<close>

lemma addFunction_usedMemoryBytes:
  "usedMemoryBytes (snd (addFunction env module func s)) = usedMemoryBytes s + functionCost s"
  by (simp add: addFunction_def Let_def split_def)

lemma addFunction_maxMemoryBytes:
  "maxMemoryBytes (snd (addFunction env module func s)) = maxMemoryBytes s"
  by (simp add: addFunction_def Let_def split_def)

lemma addFunction_functionCost:
  "functionCost (snd (addFunction env module func s)) = functionCost s"
  by (simp add: addFunction_def Let_def split_def)

lemma addFunction_registers:
  "functions (snd (addFunction env module func s)) (fst func) \<noteq> None"
  by (simp add: addFunction_def Let_def split_def emplace_def split: option.splits)

lemma addFunction_keeps:
  "functions s name \<noteq> None \<Longrightarrow> functions (snd (addFunction env module func s)) name \<noteq> None"
  by (simp add: addFunction_def Let_def split_def emplace_def split: option.splits)

lemma addFunction_dom_functions:
  "dom (functions (snd (addFunction env module func s))) = insert (fst func) (dom (functions s))"
  by (auto simp add: addFunction_def Let_def split_def emplace_def split: option.splits)

lemma addFunction_dom_buffers:
  "dom (buffers (snd (addFunction env module func s))) = insert (fst func) (dom (buffers s))"
  by (auto simp add: addFunction_def Let_def split_def emplace_def split: option.splits)

lemma addFunctions_usedMemoryBytes:
  "usedMemoryBytes (snd (addFunctions env module fs s))
     = usedMemoryBytes s + of_nat (length fs) * functionCost s"
  by (induction fs arbitrary: s)
     (simp_all add: split_def Let_def addFunction_usedMemoryBytes addFunction_functionCost
        algebra_simps)

lemma addFunctions_maxMemoryBytes:
  "maxMemoryBytes (snd (addFunctions env module fs s)) = maxMemoryBytes s"
  by (induction fs arbitrary: s) (simp_all add: split_def Let_def addFunction_maxMemoryBytes)

lemma addFunctions_functionCost:
  "functionCost (snd (addFunctions env module fs s)) = functionCost s"
  by (induction fs arbitrary: s) (simp_all add: split_def Let_def addFunction_functionCost)

lemma addFunctions_dom_functions:
  "dom (functions (snd (addFunctions env module fs s))) = fst ` set fs \<union> dom (functions s)"
  by (induction fs arbitrary: s) (auto simp add: split_def Let_def addFunction_dom_functions)

lemma addFunctions_dom_buffers:
  "dom (buffers (snd (addFunctions env module fs s))) = fst ` set fs \<union> dom (buffers s)"
  by (induction fs arbitrary: s) (auto simp add: split_def Let_def addFunction_dom_buffers)

lemma addNetworkImpl_success_cases:
  assumes "addNetworkImpl env s module newFunctions = (evs, Returned s1)"
      and "ReadyCB module None \<in> set evs"
  shows "checkFunctions (functions s) newFunctions = None
         \<and> usedMemoryBytes s + functionCost s \<le> maxMemoryBytes s
         \<and> s1 = snd (addFunctions env module newFunctions s)"
  using assms
  by (auto simp add: addNetworkImpl_def Let_def split_def split: option.splits if_splits)

lemma addNetworkImpl_admitted_not_rejection:
  assumes "checkFunctions (functions s) newFunctions = None"
      and "\<not> usedMemoryBytes s + functionCost s > maxMemoryBytes s"
  shows "addNetworkImpl env s module newFunctions \<noteq> ([ReadyCB module (Some err)], Returned s')"
proof
  assume eq: "addNetworkImpl env s module newFunctions = ([ReadyCB module (Some err)], Returned s')"
  let ?r = "addFunctions env module newFunctions s"
  from eq assms have "fst ?r @ [ExportMemoryCounters, ReadyCB module None] = [ReadyCB module (Some err)]"
    by (simp add: addNetworkImpl_def Let_def split_def split: if_splits)
  then have "length (fst ?r @ [ExportMemoryCounters, ReadyCB module None]) = 1"
    by simp
  then show False by simp
qed

text \<open>The example device after a load of one function.\<close>

lemma deviceWith_functions:
  "functions (deviceWith name f) name' =
     (if name' = name
      then Some (f\<lparr>getRuntimeBundle :=
                    (if getConstants (getRuntimeBundle f) = 0
                     then (getRuntimeBundle f)\<lparr>getConstants := 4096\<rparr>
                     else getRuntimeBundle f)\<rparr>)
      else None)"
  by (simp add: deviceWith_def addFunction_def exampleDevice_def emplace_def Let_def split_def
        bumpEnv_def)

lemma example_load:
  "addNetworkImpl (bumpEnv True) exampleDevice exampleModule [(''F'', cpuFunction)]
     = ([ExportMemoryCounters, ReadyCB exampleModule None], Returned (deviceWith ''F'' cpuFunction))"
proof -
  have "fst (addFunction (bumpEnv True) exampleModule (''F'', cpuFunction) exampleDevice) = []"
    by (simp add: addFunction_def Let_def split_def bumpEnv_def cpuFunction_def cpuBundle_def
          exampleDevice_def)
  moreover have "usedMemoryBytes (deviceWith ''F'' cpuFunction) \<le> maxMemoryBytes (deviceWith ''F'' cpuFunction)"
    by (simp add: deviceWith_def addFunction_usedMemoryBytes addFunction_maxMemoryBytes exampleDevice_def)
  ultimately show ?thesis
    by (simp add: addNetworkImpl_def Let_def split_def deviceWith_def cpuFunction_def)
       (simp add: exampleDevice_def)
qed

lemma deviceWith_buffers:
  "getRuntimeBundle f = cpuBundle \<Longrightarrow>
   buffers (deviceWith name f) name' =
     (if name' = name then Some (newCPUBuffer 4160 128 4352 64) else None)"
  by (simp add: deviceWith_def addFunction_def exampleDevice_def emplace_def Let_def split_def
        bumpEnv_def cpuBundle_def)

lemma bump_no_failure:
  "fst (addFunctions (bumpEnv ndebug) exampleModule exampleBatch exampleDevice) = []"
  by (simp add: exampleBatch_def addFunction_def Let_def split_def bumpEnv_def cpuFunction_def
        cpuBundle_def exampleDevice_def emplace_def)

section \<open>Registry and buffer map stay in step\<close>

text \<open>
  A load that returns and an evict leave \<open>functions\<close> and \<open>buffers\<close> with the
  same names, so a run of a registered function finds its buffer.
\<close>

lemma addNetworkImpl_registry_and_buffers:
  assumes "dom (functions s) = dom (buffers s)"
      and "addNetworkImpl env s module newFunctions = (evs, Returned s')"
  shows "dom (functions s') = dom (buffers s')"
proof -
  from assms(2) have "s' = s \<or> s' = snd (addFunctions env module newFunctions s)"
    by (auto simp add: addNetworkImpl_def Let_def split_def split: option.splits if_splits)
  with assms(1) show ?thesis
    by (elim disjE) (simp_all add: addFunctions_dom_functions addFunctions_dom_buffers)
qed

lemma evictNetworkImpl_registry_and_buffers:
  assumes "dom (functions s) = dom (buffers s)"
      and "evictNetworkImpl env s name = (evs, Returned s')"
  shows "dom (functions s') = dom (buffers s')"
proof -
  from assms(2) have
    "s' = s \<or> (functions s' = (functions s)(name := None)
               \<and> buffers s' = (buffers s)(name := None))"
    by (auto simp add: evictNetworkImpl_def split: if_splits)
  with assms(1) show ?thesis
    by (elim disjE) simp_all
qed

section \<open>The memory bound across loads\<close>

text \<open>
  The capacity check of a load adds \<open>functionCost\<close> once, and the second loop adds it
  once for every function of the batch. A batch of at most one function therefore keeps
  \<open>usedMemoryBytes\<close> within \<open>maxMemoryBytes\<close>.
\<close>

lemma load_at_most_one_keeps_bound:
  assumes "length newFunctions \<le> 1"
      and "usedMemoryBytes s \<le> maxMemoryBytes s"
      and "addNetworkImpl env s module newFunctions = (evs, Returned s')"
  shows "usedMemoryBytes s' \<le> maxMemoryBytes s'"
proof (cases "checkFunctions (functions s) newFunctions = None
              \<and> \<not> usedMemoryBytes s + functionCost s > maxMemoryBytes s")
  case True
  with assms(3) have s': "s' = snd (addFunctions env module newFunctions s)"
    by (auto simp add: addNetworkImpl_def Let_def split_def split: if_splits)
  from assms(1) have "newFunctions = [] \<or> (\<exists>func. newFunctions = [func])"
    by (cases newFunctions) auto
  with True assms(2) show ?thesis
    by (auto simp add: s' addFunctions_usedMemoryBytes addFunctions_maxMemoryBytes not_less)
next
  case False
  with assms(3) have "s' = s"
    by (auto simp add: addNetworkImpl_def Let_def split_def split: option.splits if_splits)
  with assms(2) show ?thesis by simp
qed

text \<open>
  C1 fails on a batch of three. On the device with maximum 1000 and function cost 400
  nothing is loaded and the check \<open>0 + 400 \<le> 1000\<close> passes; the loop then charges
  three times 400. With \<^verbatim>\<open>assert\<close> compiled out the load reports success, once,
  and leaves \<open>usedMemoryBytes\<close> at 1200 above the maximum of 1000; with \<^verbatim>\<open>assert\<close>
  compiled in the call stops at the assertion \<^verbatim>\<open>usedMemoryBytes_ <= maxMemoryBytes_\<close>
  and no callback is made.
\<close>

theorem load_batch_exceeds_maximum:
  "usedMemoryBytes exampleDevice \<le> maxMemoryBytes exampleDevice
   \<and> fst (addNetworkImpl (bumpEnv True) exampleDevice exampleModule exampleBatch)
       = [ExportMemoryCounters, ReadyCB exampleModule None]
   \<and> (case snd (addNetworkImpl (bumpEnv True) exampleDevice exampleModule exampleBatch) of
         Returned s' \<Rightarrow>
           usedMemoryBytes s' = 1200 \<and> maxMemoryBytes s' = 1000
           \<and> \<not> usedMemoryBytes s' \<le> maxMemoryBytes s'
       | AssertionFailed \<Rightarrow> False
       | UndefinedBehaviour \<Rightarrow> False)
   \<and> addNetworkImpl (bumpEnv False) exampleDevice exampleModule exampleBatch
       = ([], AssertionFailed)"
proof -
  let ?s' = "snd (addFunctions (bumpEnv True) exampleModule exampleBatch exampleDevice)"
  have check: "checkFunctions (functions exampleDevice) exampleBatch = None"
    by (simp add: exampleBatch_def exampleDevice_def cpuFunction_def)
  have admitted: "\<not> usedMemoryBytes exampleDevice + functionCost exampleDevice
                      > maxMemoryBytes exampleDevice"
    by (simp add: exampleDevice_def)
  have used: "usedMemoryBytes (snd (addFunctions (bumpEnv ndebug) exampleModule exampleBatch exampleDevice)) = 1200" for ndebug
    by (simp add: addFunctions_usedMemoryBytes) (simp add: exampleBatch_def exampleDevice_def)
  have max: "maxMemoryBytes (snd (addFunctions (bumpEnv ndebug) exampleModule exampleBatch exampleDevice)) = 1000" for ndebug
    by (simp add: addFunctions_maxMemoryBytes) (simp add: exampleDevice_def)
  have ndebug: "NDEBUG (bumpEnv b) = b" for b
    by (simp add: bumpEnv_def)
  have before: "usedMemoryBytes exampleDevice \<le> maxMemoryBytes exampleDevice"
    by (simp add: exampleDevice_def)
  show ?thesis
    using check admitted before
    by (simp add: addNetworkImpl_def Let_def split_def bump_no_failure used max ndebug)
qed

section \<open>A failed allocation during a load\<close>

text \<open>
  C2 fails when the allocator returns the null pointer. The load of one function calls
  the ready callback with the out-of-memory error, goes on, registers the function with a
  buffer of two null pointers, charges the ledger, and calls the ready callback a second
  time, with success. This holds with \<^verbatim>\<open>assert\<close> compiled in or out.
\<close>

theorem load_allocation_failure_calls_back_twice:
  "fst (addNetworkImpl (exhaustedEnv ndebug) exampleDevice exampleModule [(''A'', cpuFunction)])
     = [ReadyCB exampleModule (Some OutOfDeviceMemory), ExportMemoryCounters,
        ReadyCB exampleModule None]
   \<and> length (filter isReadyCB
        (fst (addNetworkImpl (exhaustedEnv ndebug) exampleDevice exampleModule
                [(''A'', cpuFunction)]))) = 2
   \<and> (case snd (addNetworkImpl (exhaustedEnv ndebug) exampleDevice exampleModule
                   [(''A'', cpuFunction)]) of
         Returned s' \<Rightarrow>
           functions s' ''A'' \<noteq> None
           \<and> buffers s' ''A'' = Some (newCPUBuffer 0 128 0 64)
           \<and> usedMemoryBytes s' = 400
       | AssertionFailed \<Rightarrow> False
       | UndefinedBehaviour \<Rightarrow> False)"
  by (simp add: addNetworkImpl_def addFunction_def Let_def split_def exhaustedEnv_def
        cpuFunction_def cpuBundle_def exampleDevice_def emplace_def OutOfDeviceMemory_def)

section \<open>Running a registered function\<close>




section \<open>The peer-to-peer address of a missing symbol\<close>

text \<open>
  C4 fails. With \<open>recv_func\<close> loaded, the placeholder \<open>recv_input\<close> bound and no
  such symbol in the function's symbol table, the resolver prints that it did not find
  the symbol and then reads the entry of the end iterator: it returns no error value.
\<close>

theorem missing_symbol_is_no_error:
  "functions (deviceWith ''recv_func'' cpuFunction) ''recv_func'' \<noteq> None
   \<and> getSymbolTable (getRuntimeBundle cpuFunction) ''recv_input'' = None
   \<and> getRemotePeerToPeerAddress (deviceWith ''recv_func'' cpuFunction) 0 exampleBindings
       = ([BufferCall ''recv_func'' GetWeightsBuffer,
           Outs (''Did not find symbol'' @ [CHR 0x0A])],
          UndefinedBehaviour)"
  by (simp add: getRemotePeerToPeerAddress_def deviceWith_functions deviceWith_buffers
        cpuFunction_def cpuBundle_def exampleBindings_def Let_def)

text \<open>The two ways the resolver does return: the address, and the error of a missing function.\<close>

lemma present_symbol_address:
  "getRemotePeerToPeerAddress
     (exampleDevice\<lparr> functions := [''recv_func'' \<mapsto> recvFunction],
                     buffers := [''recv_func'' \<mapsto> newCPUBuffer 4160 128 4352 64] \<rparr>)
     0 exampleBindings
   = ([BufferCall ''recv_func'' GetWeightsBuffer], Returned (Inr 4368))"
  by (simp add: getRemotePeerToPeerAddress_def recvFunction_def cpuBundle_def
        exampleBindings_def newCPUBuffer_def Let_def)

lemma not_loaded_address:
  "functions s ''recv_func'' = None \<Longrightarrow>
   getRemotePeerToPeerAddress s channelId bindings = ([], Returned (Inl RemoteAddressUnavailable))"
  by (simp add: getRemotePeerToPeerAddress_def RemoteAddressUnavailable_def)

section \<open>Loading a name that is already registered\<close>

text \<open>
  The first loop stops at the first function, in iteration order, that is already
  registered or is not compiled for the CPU, and its error is the one reported.
\<close>

lemma checkFunctions_first_offender:
  assumes "func \<in> set fs" and "registered (fst func) \<noteq> None"
  shows "\<exists>pre bad post. fs = pre @ bad # post
          \<and> (\<forall>g \<in> set pre. registered (fst g) = None \<and> getCompileBackendName (snd g) = ''CPU'')
          \<and> (registered (fst bad) \<noteq> None \<or> getCompileBackendName (snd bad) \<noteq> ''CPU'')
          \<and> checkFunctions registered fs
              = Some (if registered (fst bad) \<noteq> None then DuplicateFunction (fst bad)
                      else WrongBackend (fst bad))"
  using assms
proof (induction fs)
  case Nil
  then show ?case by simp
next
  case (Cons g fs)
  show ?case
  proof (cases "registered (fst g) \<noteq> None \<or> getCompileBackendName (snd g) \<noteq> ''CPU''")
    case True
    then have "g # fs = [] @ g # fs
          \<and> (\<forall>g \<in> set []. registered (fst g) = None \<and> getCompileBackendName (snd g) = ''CPU'')
          \<and> (registered (fst g) \<noteq> None \<or> getCompileBackendName (snd g) \<noteq> ''CPU'')
          \<and> checkFunctions registered (g # fs)
              = Some (if registered (fst g) \<noteq> None then DuplicateFunction (fst g)
                      else WrongBackend (fst g))"
      by (auto simp add: DuplicateFunction_def WrongBackend_def)
    then show ?thesis by blast
  next
    case False
    with Cons.prems have "func \<in> set fs" by auto
    from Cons.IH [OF this Cons.prems(2)] obtain pre bad post where
      split: "fs = pre @ bad # post"
      and clean: "\<forall>g \<in> set pre. registered (fst g) = None \<and> getCompileBackendName (snd g) = ''CPU''"
      and off: "registered (fst bad) \<noteq> None \<or> getCompileBackendName (snd bad) \<noteq> ''CPU''"
      and res: "checkFunctions registered fs
              = Some (if registered (fst bad) \<noteq> None then DuplicateFunction (fst bad)
                      else WrongBackend (fst bad))"
      by blast
    from split have "g # fs = (g # pre) @ bad # post" by simp
    moreover from clean False
    have "\<forall>h \<in> set (g # pre). registered (fst h) = None \<and> getCompileBackendName (snd h) = ''CPU''"
      by simp
    moreover from res False
    have "checkFunctions registered (g # fs)
              = Some (if registered (fst bad) \<noteq> None then DuplicateFunction (fst bad)
                      else WrongBackend (fst bad))"
      by simp
    ultimately show ?thesis using off by blast
  qed
qed

text \<open>
  C5, as stated, fails: a load whose batch holds the registered name \<open>b\<close> and, sorted
  before it, a function \<open>a\<close> compiled for another backend is turned away with the
  wrong-backend error of \<open>a\<close>, not with a duplicate-function error.
\<close>

theorem load_registered_name_counterexample:
  "functions (deviceWith ''b'' cpuFunction) ''b'' \<noteq> None
   \<and> addNetworkImpl (bumpEnv True) (deviceWith ''b'' cpuFunction) exampleModule
        [(''a'', interpreterFunction), (''b'', cpuFunction)]
       = ([ReadyCB exampleModule (Some (WrongBackend ''a''))],
          Returned (deviceWith ''b'' cpuFunction))
   \<and> WrongBackend ''a'' \<noteq> DuplicateFunction ''b''
   \<and> WrongBackend ''a'' \<noteq> DuplicateFunction ''a''"
  by (simp add: addNetworkImpl_def deviceWith_functions interpreterFunction_def
        WrongBackend_def DuplicateFunction_def)

text \<open>
  C5, amended. A load whose batch holds a registered name calls the ready callback once
  and returns the device as it was, registry and ledger included. The error is that of
  the first function of the batch that is registered or not compiled for the CPU: the
  duplicate-function error when that function is registered, the wrong-backend error
  otherwise.
\<close>

theorem load_registered_name_fails:
  assumes "func \<in> set newFunctions" and "functions s (fst func) \<noteq> None"
  shows "\<exists>pre bad post. newFunctions = pre @ bad # post
          \<and> (\<forall>g \<in> set pre. functions s (fst g) = None
                               \<and> getCompileBackendName (snd g) = ''CPU'')
          \<and> (functions s (fst bad) \<noteq> None \<or> getCompileBackendName (snd bad) \<noteq> ''CPU'')
          \<and> addNetworkImpl env s module newFunctions
              = ([ReadyCB module
                    (Some (if functions s (fst bad) \<noteq> None then DuplicateFunction (fst bad)
                           else WrongBackend (fst bad)))],
                 Returned s)"
proof -
  from checkFunctions_first_offender [where registered = "functions s", OF assms] obtain pre bad post where
    "newFunctions = pre @ bad # post"
    "\<forall>g \<in> set pre. functions s (fst g) = None \<and> getCompileBackendName (snd g) = ''CPU''"
    "functions s (fst bad) \<noteq> None \<or> getCompileBackendName (snd bad) \<noteq> ''CPU''"
    "checkFunctions (functions s) newFunctions
       = Some (if functions s (fst bad) \<noteq> None then DuplicateFunction (fst bad)
               else WrongBackend (fst bad))"
    by blast
  moreover from this(4) have "addNetworkImpl env s module newFunctions
              = ([ReadyCB module
                    (Some (if functions s (fst bad) \<noteq> None then DuplicateFunction (fst bad)
                           else WrongBackend (fst bad)))],
                 Returned s)"
    by (simp add: addNetworkImpl_def)
  ultimately show ?thesis by blast
qed

theorem load_registered_name_fails_witness:
  "(''b'', cpuFunction) \<in> set [(''b'', cpuFunction), (''c'', interpreterFunction)]
   \<and> functions (deviceWith ''b'' cpuFunction) ''b'' \<noteq> None
   \<and> addNetworkImpl (bumpEnv True) (deviceWith ''b'' cpuFunction) exampleModule
        [(''b'', cpuFunction), (''c'', interpreterFunction)]
       = ([ReadyCB exampleModule (Some (DuplicateFunction ''b''))],
          Returned (deviceWith ''b'' cpuFunction))"
proof -
  have reg: "functions (deviceWith ''b'' cpuFunction) (fst (''b'', cpuFunction)) \<noteq> None"
    by (simp add: deviceWith_functions)
  have mem: "(''b'', cpuFunction) \<in> set [(''b'', cpuFunction), (''c'', interpreterFunction)]"
    by simp
  from load_registered_name_fails [OF mem reg, of "bumpEnv True" exampleModule]
  obtain pre bad post where
    split: "[(''b'', cpuFunction), (''c'', interpreterFunction)] = pre @ bad # post"
    and clean: "\<forall>g \<in> set pre. functions (deviceWith ''b'' cpuFunction) (fst g) = None
                               \<and> getCompileBackendName (snd g) = ''CPU''"
    and res: "addNetworkImpl (bumpEnv True) (deviceWith ''b'' cpuFunction) exampleModule
        [(''b'', cpuFunction), (''c'', interpreterFunction)]
       = ([ReadyCB exampleModule
             (Some (if functions (deviceWith ''b'' cpuFunction) (fst bad) \<noteq> None
                    then DuplicateFunction (fst bad) else WrongBackend (fst bad)))],
          Returned (deviceWith ''b'' cpuFunction))"
    by blast
  have "pre = []"
  proof (cases pre)
    case Nil
    then show ?thesis .
  next
    case (Cons g gs)
    with split have "g = (''b'', cpuFunction)" by simp
    with clean Cons reg show ?thesis by simp
  qed
  with split have "bad = (''b'', cpuFunction)" by simp
  with res reg mem show ?thesis by simp
qed

section \<open>Evicting a function that is not registered\<close>

text \<open>
  C6. An evict that names a function the registry does not have calls its callback
  once, with the not-found error, and returns the device as it was:
  \<open>usedMemoryBytes\<close>, the registry, the buffer map and everything else.
\<close>

theorem evict_unknown_no_change:
  assumes "functions s functionName = None"
  shows "evictNetworkImpl env s functionName
           = ([EvictCB functionName (Some (EvictNotFound functionName))], Returned s)
         \<and> errorCode (EvictNotFound functionName) = RUNTIME_NET_NOT_FOUND"
  using assms by (simp add: evictNetworkImpl_def EvictNotFound_def)

theorem evict_unknown_no_change_witness:
  "functions exampleDevice ''A'' = None
   \<and> evictNetworkImpl (bumpEnv True) exampleDevice ''A''
       = ([EvictCB ''A'' (Some (EvictNotFound ''A''))], Returned exampleDevice)"
  using evict_unknown_no_change [of exampleDevice "''A''" "bumpEnv True"]
  by (simp add: exampleDevice_def)

section \<open>Loading and evicting one function\<close>

text \<open>
  C7. When a load of a single function returns and has reported success, the evict of that
  function right after it succeeds, and \<open>usedMemoryBytes\<close> and
  \<open>getAvailableMemory\<close> are back at their values from before the load.
\<close>

theorem load_evict_round_trip:
  assumes "addNetworkImpl env s module [(name, f)] = (evs, Returned s1)"
      and "ReadyCB module None \<in> set evs"
  shows "\<exists>s2. evictNetworkImpl env s1 name
                = ([ExportMemoryCounters, EvictCB name None], Returned s2)
              \<and> usedMemoryBytes s2 = usedMemoryBytes s
              \<and> getAvailableMemory s2 = getAvailableMemory s"
proof -
  have s1: "s1 = snd (addFunction env module (name, f) s)"
    using addNetworkImpl_success_cases [OF assms] by (simp add: split_def Let_def)
  have reg: "functions s1 name \<noteq> None"
    using addFunction_registers [of env module "(name, f)" s] by (simp add: s1)
  have used: "usedMemoryBytes s1 = usedMemoryBytes s + functionCost s"
    and cost: "functionCost s1 = functionCost s"
    and max: "maxMemoryBytes s1 = maxMemoryBytes s"
    by (simp_all add: s1 addFunction_usedMemoryBytes addFunction_functionCost
          addFunction_maxMemoryBytes)
  show ?thesis
    using reg by (simp add: evictNetworkImpl_def getAvailableMemory_def used cost max)
qed

theorem load_evict_round_trip_witness:
  "addNetworkImpl (bumpEnv True) exampleDevice exampleModule [(''F'', cpuFunction)]
     = ([ExportMemoryCounters, ReadyCB exampleModule None], Returned (deviceWith ''F'' cpuFunction))
   \<and> usedMemoryBytes (deviceWith ''F'' cpuFunction) = 400
   \<and> (\<exists>s2. evictNetworkImpl (bumpEnv True) (deviceWith ''F'' cpuFunction) ''F''
                = ([ExportMemoryCounters, EvictCB ''F'' None], Returned s2)
              \<and> usedMemoryBytes s2 = 0
              \<and> getAvailableMemory s2 = 1000)"
proof -
  have used: "usedMemoryBytes (deviceWith ''F'' cpuFunction) = 400"
    by (simp add: deviceWith_def addFunction_usedMemoryBytes exampleDevice_def)
  have before: "usedMemoryBytes exampleDevice = 0" "getAvailableMemory exampleDevice = 1000"
    by (simp_all add: exampleDevice_def getAvailableMemory_def)
  show ?thesis
    using load_evict_round_trip [OF example_load] example_load used before by simp
qed

section \<open>The memory check\<close>

text \<open>
  \<open>isMemoryAvailable\<close> is the comparison of the capacity check of
  \<open>addNetworkImpl\<close>: a batch that passes the name and backend checks is turned away
  for lack of memory exactly when \<open>isMemoryAvailable\<close> fails for \<open>functionCost\<close>.
  The accessor is a function of the device to a truth value: it returns no device, so it
  changes none.
\<close>

lemma addNetworkImpl_rejects_iff_not_available:
  assumes ok: "checkFunctions (functions s) newFunctions = None"
  shows "(addNetworkImpl env s module newFunctions
           = ([ReadyCB module (Some OutOfDeviceMemory)], Returned s))
          = (\<not> isMemoryAvailable s (functionCost s))"
proof (cases "usedMemoryBytes s + functionCost s > maxMemoryBytes s")
  case True
  then show ?thesis
    using ok by (simp add: addNetworkImpl_def isMemoryAvailable_def OutOfDeviceMemory_def not_le)
next
  case False
  then show ?thesis
    using addNetworkImpl_admitted_not_rejection [OF ok False]
    by (simp add: isMemoryAvailable_def not_less)
qed

text \<open>
  As long as the sum of the bytes in use and the estimate stays below \<open>2 ^ 64\<close>, the
  accessor answers whether that sum is within the maximum.
\<close>

lemma isMemoryAvailable_no_wrap:
  assumes "unat (usedMemoryBytes s) + unat estimate < 2 ^ 64"
  shows "isMemoryAvailable s estimate
           \<longleftrightarrow> unat (usedMemoryBytes s) + unat estimate \<le> unat (maxMemoryBytes s)"
  using assms by (simp add: isMemoryAvailable_def word_le_nat_alt unat_word_ariths)

lemma deviceWith_ledger:
  "usedMemoryBytes (deviceWith name f) = 400"
  "maxMemoryBytes (deviceWith name f) = 1000"
  "functionCost (deviceWith name f) = 400"
  by (simp_all add: deviceWith_def addFunction_usedMemoryBytes addFunction_maxMemoryBytes
        addFunction_functionCost exampleDevice_def)

text \<open>
  C8 fails where the sum wraps. On the example device with one function loaded, 400 of
  1000 bytes are in use. For the estimate \<open>2 ^ 64 - 1\<close> the bytes in use and the
  estimate together exceed the maximum, yet the 64-bit sum the source computes is 399 and
  \<open>isMemoryAvailable\<close> answers that the function will fit.
\<close>

theorem isMemoryAvailable_wraps_at_large_estimate:
  "usedMemoryBytes (deviceWith ''F'' cpuFunction) = 400
   \<and> maxMemoryBytes (deviceWith ''F'' cpuFunction) = 1000
   \<and> unat (18446744073709551615 :: u64) = 18446744073709551615
   \<and> \<not> unat (usedMemoryBytes (deviceWith ''F'' cpuFunction))
          + unat (18446744073709551615 :: u64)
        \<le> unat (maxMemoryBytes (deviceWith ''F'' cpuFunction))
   \<and> usedMemoryBytes (deviceWith ''F'' cpuFunction) + 18446744073709551615 = 399
   \<and> isMemoryAvailable (deviceWith ''F'' cpuFunction) 18446744073709551615"
  by (simp add: isMemoryAvailable_def deviceWith_ledger)

section \<open>Running a function that is not registered\<close>

text \<open>
  C9. A run that names a function the registry does not have calls the result callback
  exactly once, with the run identifier, the not-found error and the very context it was
  given (no device bindings attached, nothing else touched), and returns the device as
  it was.
\<close>

theorem run_unknown_returns_context:
  assumes "functions s function = None"
  shows "filter isResultCB (fst (runFunctionImpl s ident function context))
           = [ResultCB ident (Some (RunNotFound function)) context]
         \<and> snd (runFunctionImpl s ident function context) = Returned s
         \<and> errorCode (RunNotFound function) = RUNTIME_NET_NOT_FOUND"
  using assms by (simp add: runFunctionImpl_def RunNotFound_def)

theorem run_unknown_returns_context_witness:
  "functions (deviceWith ''F'' cpuFunction) ''G'' = None
   \<and> filter isResultCB
        (fst (runFunctionImpl (deviceWith ''F'' cpuFunction) 7 ''G'' exampleContext))
       = [ResultCB 7 (Some (RunNotFound ''G'')) exampleContext]
   \<and> snd (runFunctionImpl (deviceWith ''F'' cpuFunction) 7 ''G'' exampleContext)
       = Returned (deviceWith ''F'' cpuFunction)"
proof -
  have h: "functions (deviceWith ''F'' cpuFunction) ''G'' = None"
    by (simp add: deviceWith_functions)
  show ?thesis
    using h run_unknown_returns_context [OF h, of 7 exampleContext] by simp
qed

section \<open>The maximum memory of a created device\<close>

lemma unat_kilobytes: "unat (ucast (x :: 32 word) * (1024 :: 64 word)) = unat x * 1024"
proof -
  have small: "unat x < 2 ^ 32" using unsigned_less [of x] by simp
  then have "unat x < 2 ^ 64" by simp
  then have "take_bit 64 (unat x) = unat x" by (simp only: take_bit_nat_eq_self)
  then have "unat (ucast x :: 64 word) = unat x" by (simp add: unsigned_ucast_eq)
  with small show ?thesis by (simp add: unat_word_ariths)
qed

text \<open>
  C10. With a nonzero \<^verbatim>\<open>cpu-memory\<close> override the created device's maximum memory
  is the override times 1024, as a number (the 64-bit product cannot wrap); with the
  override at zero it is the device memory of the configuration supplied.
\<close>

theorem createCPUDeviceManager_maximum_memory:
  "(GlowCPUMemory \<noteq> 0 \<longrightarrow>
      unat (getMaximumMemory
              (snd (createCPUDeviceManager GlowCPUMemory cost h config
                      :: 'x Event list \<times> ('h, 'x) CPUDeviceManager)))
        = unat GlowCPUMemory * 1024)
   \<and> (GlowCPUMemory = 0 \<longrightarrow>
      getMaximumMemory
        (snd (createCPUDeviceManager GlowCPUMemory cost h config
                :: 'x Event list \<times> ('h, 'x) CPUDeviceManager))
        = deviceMemory config)"
  by (simp add: createCPUDeviceManager_def newCPUDeviceManager_def getMaximumMemory_def
        Let_def unat_kilobytes)

theorem createCPUDeviceManager_maximum_memory_witness:
  "(3 :: 32 word) \<noteq> 0
   \<and> unat (getMaximumMemory
        (snd (createCPUDeviceManager 3 400 (4096 :: ptr) \<lparr>deviceMemory = 1000\<rparr>
               :: nat Event list \<times> (ptr, nat) CPUDeviceManager))) = 3 * 1024
   \<and> getMaximumMemory
        (snd (createCPUDeviceManager 0 400 (4096 :: ptr) \<lparr>deviceMemory = 1000\<rparr>
               :: nat Event list \<times> (ptr, nat) CPUDeviceManager)) = 1000"
  using
    createCPUDeviceManager_maximum_memory
      [of 3 400 "4096 :: ptr" "\<lparr>deviceMemory = 1000\<rparr>", where ?'x = nat]
    createCPUDeviceManager_maximum_memory
      [of 0 400 "4096 :: ptr" "\<lparr>deviceMemory = 1000\<rparr>", where ?'x = nat]
  by simp

end
